theory Spec2Isabelle
  imports Complex_Main
begin

section \<open>Python values and exceptions\<close>

text \<open>
  The values that flow through \<^verbatim>\<open>app/main.py\<close>: the dumped vehicle record, the
  predictor's result and the bodies the handlers return are JSON-like Python values.
  A float is represented by the number its decimal literal denotes, a dict by its items
  in insertion order, with string keys.
\<close>

datatype pyval =
    PyNone
  | PyBool bool
  | PyInt int
  | PyFloat real
  | PyStr string
  | PyList "pyval list"
  | PyDict "(string \<times> pyval) list"

type_synonym pydict = "(string \<times> pyval) list"

text \<open>
  What a call can raise, by the classes the \<^verbatim>\<open>except\<close> clauses tell apart:
  \<^item> \<^verbatim>\<open>fastapi.HTTPException\<close>, the class the module imports, with its \<^verbatim>\<open>status_code\<close>
    and \<^verbatim>\<open>detail\<close>;
  \<^item> every other instance of \<^verbatim>\<open>Exception\<close> (Starlette's own \<^verbatim>\<open>HTTPException\<close>, the
    parent class, among them), carried by its \<^verbatim>\<open>str(e)\<close>;
  \<^item> a raised object outside \<^verbatim>\<open>Exception\<close> (\<^verbatim>\<open>SystemExit\<close>, \<^verbatim>\<open>KeyboardInterrupt\<close>,
    \<^verbatim>\<open>asyncio.CancelledError\<close>), carried by its \<^verbatim>\<open>str(e)\<close>.
\<close>

datatype exn =
    HTTPException nat pyval
  | OtherException string
  | BaseException_only string

text \<open>\<^verbatim>\<open>isinstance(e, Exception)\<close>: what \<^verbatim>\<open>except Exception\<close> catches.\<close>

fun is_Exception :: "exn \<Rightarrow> bool" where
  "is_Exception (HTTPException c d) = True"
| "is_Exception (OtherException s) = True"
| "is_Exception (BaseException_only s) = False"

text \<open>
  The constructor call \<^verbatim>\<open>HTTPException(status_code=status.HTTP_400_BAD_REQUEST, detail=d)\<close>.
  The constructor keeps a detail other than \<^verbatim>\<open>None\<close> and replaces \<^verbatim>\<open>None\<close> by
  \<^verbatim>\<open>http.HTTPStatus(status_code).phrase\<close>, which is \<^verbatim>\<open>'Bad Request'\<close> for 400. (The
  module's two other constructor calls pass a string.)
\<close>

definition http_400 :: "pyval \<Rightarrow> exn" where
  "http_400 d = HTTPException 400 (if d = PyNone then PyStr ''Bad Request'' else d)"

text \<open>The constants of \<^verbatim>\<open>fastapi.status\<close> that the module uses.\<close>

abbreviation HTTP_200_OK :: nat where
  "HTTP_200_OK \<equiv> 200"

abbreviation HTTP_400_BAD_REQUEST :: nat where
  "HTTP_400_BAD_REQUEST \<equiv> 400"

abbreviation HTTP_500_INTERNAL_SERVER_ERROR :: nat where
  "HTTP_500_INTERNAL_SERVER_ERROR \<equiv> 500"

abbreviation HTTP_503_SERVICE_UNAVAILABLE :: nat where
  "HTTP_503_SERVICE_UNAVAILABLE \<equiv> 503"

text \<open>\<^verbatim>\<open>type(v).__name__\<close> for the values above.\<close>

fun type_name :: "pyval \<Rightarrow> string" where
  "type_name PyNone = ''NoneType''"
| "type_name (PyBool b) = ''bool''"
| "type_name (PyInt i) = ''int''"
| "type_name (PyFloat x) = ''float''"
| "type_name (PyStr s) = ''str''"
| "type_name (PyList xs) = ''list''"
| "type_name (PyDict d) = ''dict''"

text \<open>\<^verbatim>\<open>d.get(k)\<close> on a dict: the value stored under the key, \<^verbatim>\<open>None\<close> when absent.\<close>

definition dict_get :: "pydict \<Rightarrow> string \<Rightarrow> pyval" where
  "dict_get d k = (case map_of d k of None \<Rightarrow> PyNone | Some v \<Rightarrow> v)"

text \<open>
  \<^verbatim>\<open>v.get(k)\<close> on any value: only a dict has the method, every other value raises
  \<^verbatim>\<open>AttributeError\<close> with Python's message.
\<close>

definition no_attribute_get :: "pyval \<Rightarrow> string" where
  "no_attribute_get v =
     CHR 0x27 # type_name v @ CHR 0x27 # '' object has no attribute '' @
     CHR 0x27 # ''get'' @ [CHR 0x27]"

fun py_get :: "pyval \<Rightarrow> string \<Rightarrow> exn + pyval" where
  "py_get (PyDict d) k = Inr (dict_get d k)"
| "py_get v k = Inl (OtherException (no_attribute_get v))"

section \<open>The collaborators\<close>

text \<open>
  \<^verbatim>\<open>EVMaintenancePredictor\<close> lives in \<^verbatim>\<open>app/inference.py\<close>; the module uses its
  \<^verbatim>\<open>predict\<close> method, its \<^verbatim>\<open>feature_columns\<close> attribute and the class names of its
  two model objects. \<^verbatim>\<open>predict\<close> receives the dict itself: it returns a value or
  raises, and it leaves the dict as the second component says (it may change it in
  place).
\<close>

datatype model_object = Model_object (class_name: string)

record predictor =
  predict :: "pydict \<Rightarrow> (exn + pyval) \<times> pydict"
  feature_columns :: pyval
  soh_model :: model_object
  thermal_model :: model_object

text \<open>
  A \<^verbatim>\<open>VehicleData\<close> instance (a schema of \<^verbatim>\<open>app/schemas.py\<close>) is represented by the
  dict that \<^verbatim>\<open>model_dump()\<close> returns for it.
\<close>

datatype VehicleData = VehicleData (model_dump: pydict)

section \<open>Process state\<close>

text \<open>
  The module-level dict \<^verbatim>\<open>predictor_instance\<close> and what the process does to the
  outside: the records handed to \<^verbatim>\<open>logger\<close> and the calls of the predictor's
  \<^verbatim>\<open>predict\<close>, in order. An f-string with one interpolated value is kept as its
  literal part and the value.
\<close>

datatype level = INFO | ERROR

datatype event =
    Log level string
  | LogF level string pyval
  | Predict_call pydict

record world =
  predictor_instance :: "string \<rightharpoonup> predictor"
  trace :: "event list"

definition emit :: "event \<Rightarrow> world \<Rightarrow> world" where
  "emit ev w = w\<lparr>trace := trace w @ [ev]\<rparr>"

text \<open>The state at import time: \<^verbatim>\<open>predictor_instance = {}\<close>, nothing logged.\<close>

definition world_init :: world where
  "world_init = \<lparr>predictor_instance = Map.empty, trace = []\<rparr>"

section \<open>The lifespan hook\<close>

text \<open>
  \<^verbatim>\<open>lifespan\<close> up to its \<^verbatim>\<open>yield\<close>. The argument is the outcome of the constructor
  call \<^verbatim>\<open>EVMaintenancePredictor()\<close>. \<open>Inr ()\<close> means the \<^verbatim>\<open>yield\<close> is reached,
  \<open>Inl e\<close> that the hook raises \<open>e\<close>: \<^verbatim>\<open>except Exception\<close> logs and re-raises, and
  what it does not catch leaves the hook without the log record.
\<close>

definition lifespan_startup :: "exn + predictor \<Rightarrow> world \<Rightarrow> (exn + unit) \<times> world" where
  "lifespan_startup constructed w =
     (let w1 = emit (Log INFO '' Starting up API server...'') w in
      case constructed of
        Inr p \<Rightarrow>
          (let w2 = w1\<lparr>predictor_instance := (predictor_instance w1)(''predictor'' \<mapsto> p)\<rparr>
           in (Inr (), emit (Log INFO ''Models loaded '') w2))
      | Inl e \<Rightarrow>
          (Inl e, if is_Exception e then emit (Log ERROR ''Failed to load models'') w1 else w1))"

text \<open>\<^verbatim>\<open>lifespan\<close> after its \<^verbatim>\<open>yield\<close>.\<close>

definition lifespan_shutdown :: "world \<Rightarrow> world" where
  "lifespan_shutdown w =
     (let w1 = emit (Log INFO '' Shutting down'') w;
          w2 = w1\<lparr>predictor_instance := Map.empty\<rparr>
      in emit (Log INFO '' Cleanup complete'') w2)"

section \<open>The request handlers\<close>

text \<open>
  The body of the \<^verbatim>\<open>try\<close> block of \<^verbatim>\<open>predict_maintenance\<close>: what it returns or
  raises, and the world it leaves.
\<close>

definition predict_try :: "VehicleData \<Rightarrow> world \<Rightarrow> (exn + pyval) \<times> world" where
  "predict_try vehicle_data w =
     (case predictor_instance w ''predictor'' of
        None \<Rightarrow>
          (Inl (HTTPException HTTP_503_SERVICE_UNAVAILABLE
                  (PyStr ''Model not loaded. Server may be starting up.'')), w)
      | Some p \<Rightarrow>
          (let vehicle_dict = model_dump vehicle_data;
               w1 = emit (LogF INFO ''Processing prediction for ''
                            (dict_get vehicle_dict ''Vehicle_ID'')) w;
               w2 = emit (Predict_call vehicle_dict) w1
           in case predict p vehicle_dict of
                (Inl e, vehicle_dict') \<Rightarrow> (Inl e, w2)
              | (Inr result, vehicle_dict') \<Rightarrow>
                  (case py_get result ''status'' of
                     Inl e \<Rightarrow> (Inl e, w2)
                   | Inr st \<Rightarrow>
                       if st = PyStr ''error'' then
                         (case py_get result ''error_message'' of
                            Inl e \<Rightarrow> (Inl e, w2)
                          | Inr msg \<Rightarrow> (Inl (http_400 msg), w2))
                       else
                         (Inr result,
                          emit (LogF INFO ''Prediction successful for ''
                                  (dict_get vehicle_dict' ''Vehicle_ID'')) w2))))"

text \<open>
  \<^verbatim>\<open>predict_maintenance\<close>: the \<^verbatim>\<open>try\<close> block under its two \<^verbatim>\<open>except\<close> clauses, in
  the source's order; what neither clause catches leaves the handler as it is.
\<close>

definition predict_maintenance :: "VehicleData \<Rightarrow> world \<Rightarrow> (exn + pyval) \<times> world" where
  "predict_maintenance vehicle_data w =
     (case predict_try vehicle_data w of
        (Inr result, w') \<Rightarrow> (Inr result, w')
      | (Inl (HTTPException c d), w') \<Rightarrow> (Inl (HTTPException c d), w')
      | (Inl (OtherException s), w') \<Rightarrow>
          (Inl (HTTPException HTTP_500_INTERNAL_SERVER_ERROR
                  (PyStr (''Prediction failed: '' @ s))),
           emit (Log ERROR (''Prediction error: '' @ s)) w')
      | (Inl (BaseException_only s), w') \<Rightarrow> (Inl (BaseException_only s), w'))"

text \<open>
  The route decorator of \<^verbatim>\<open>/predict\<close> declares \<^verbatim>\<open>status_code=status.HTTP_200_OK\<close> and
  \<^verbatim>\<open>response_model=PredictionResponse\<close>: the value the handler returns is validated
  against that schema and serialised again, and the outcome is sent under the status
  200; a value that does not validate makes the framework raise
  \<^verbatim>\<open>ResponseValidationError\<close>, an \<^verbatim>\<open>Exception\<close> raised after the handler has returned.
  An exception the handler raises propagates with the status it carries. The schema
  lives in \<^verbatim>\<open>app/schemas.py\<close> and is the parameter \<open>response_model\<close>: \<open>Inr\<close> the
  serialised content, \<open>Inl\<close> the \<^verbatim>\<open>str\<close> of the validation error.
\<close>

definition post_predict ::
    "(pyval \<Rightarrow> string + pyval) \<Rightarrow> VehicleData \<Rightarrow> world \<Rightarrow> (exn + nat \<times> pyval) \<times> world" where
  "post_predict response_model vehicle_data w =
     (case predict_maintenance vehicle_data w of
        (Inr result, w') \<Rightarrow>
          (case response_model result of
             Inr content \<Rightarrow> (Inr (HTTP_200_OK, content), w')
           | Inl errors \<Rightarrow> (Inl (OtherException errors), w'))
      | (Inl e, w') \<Rightarrow> (Inl e, w'))"

text \<open>
  \<^verbatim>\<open>root\<close>, \<^verbatim>\<open>health_check\<close> and \<^verbatim>\<open>get_model_info\<close>. \<open>MODEL_VERSION\<close> is the
  constant imported from \<^verbatim>\<open>app/config.py\<close>, \<open>now\<close> the reading
  \<^verbatim>\<open>datetime.now().isoformat()\<close> of the clock when the handler runs. None of the
  three logs or calls the predictor; \<^verbatim>\<open>get_model_info\<close> reads \<^verbatim>\<open>predictor_instance\<close>.
\<close>

definition root :: "string \<Rightarrow> pyval" where
  "root MODEL_VERSION =
     PyDict
       [(''message'', PyStr ''EV Predictive Maintenance''),
        (''version'', PyStr MODEL_VERSION),
        (''status'', PyStr ''running''),
        (''docs'', PyStr ''/docs''),
        (''endpoints'',
         PyDict
           [(''health'', PyStr ''GET /health''),
            (''predict'', PyStr ''POST /predict''),
            (''model_info'', PyStr ''GET /model/info'')])]"

definition health_check :: "string \<Rightarrow> string \<Rightarrow> pyval" where
  "health_check MODEL_VERSION now =
     PyDict
       [(''status'', PyStr ''healthy''),
        (''model_version'', PyStr MODEL_VERSION),
        (''timestamp'', PyStr now)]"

definition thresholds :: pyval where
  "thresholds =
     PyDict
       [(''soh_critical'', PyFloat 0.60),
        (''soh_warning'', PyFloat 0.80),
        (''rul_urgent'', PyInt 100),
        (''thermal_danger'', PyFloat 0.70)]"

definition get_model_info :: "string \<Rightarrow> world \<Rightarrow> exn + pyval" where
  "get_model_info MODEL_VERSION w =
     (case predictor_instance w ''predictor'' of
        None \<Rightarrow>
          Inl (HTTPException HTTP_503_SERVICE_UNAVAILABLE (PyStr ''Models not loaded''))
      | Some p \<Rightarrow>
          Inr (PyDict
                 [(''model_version'', PyStr MODEL_VERSION),
                  (''features'', feature_columns p),
                  (''models'',
                   PyDict
                     [(''soh_predictor'', PyStr (class_name (soh_model p))),
                      (''thermal_predictor'', PyStr (class_name (thermal_model p)))]),
                  (''thresholds'', thresholds)]))"

section \<open>The running process\<close>

text \<open>The four routes the decorators register, with what each handler receives.\<close>

datatype request =
    POST_predict VehicleData
  | GET_root
  | GET_health
  | GET_model_info

definition handle :: "string \<Rightarrow> string \<Rightarrow> request \<Rightarrow> world \<Rightarrow> (exn + pyval) \<times> world" where
  "handle MODEL_VERSION now req w =
     (case req of
        POST_predict vehicle_data \<Rightarrow> predict_maintenance vehicle_data w
      | GET_root \<Rightarrow> (Inr (root MODEL_VERSION), w)
      | GET_health \<Rightarrow> (Inr (health_check MODEL_VERSION now), w)
      | GET_model_info \<Rightarrow> (get_model_info MODEL_VERSION w, w))"

text \<open>
  The handlers are coroutines without an \<^verbatim>\<open>await\<close>, so each runs to its end before the
  next starts: the requests of one process are served one after the other, each paired
  with the clock reading at its time.
\<close>

fun serve :: "string \<Rightarrow> (string \<times> request) list \<Rightarrow> world \<Rightarrow> (exn + pyval) list \<times> world" where
  "serve MODEL_VERSION [] w = ([], w)"
| "serve MODEL_VERSION ((now, req) # rest) w =
     (let (r, w1) = handle MODEL_VERSION now req w;
          (rs, w2) = serve MODEL_VERSION rest w1
      in (r # rs, w2))"

text \<open>
  One run of the process under \<^verbatim>\<open>lifespan=lifespan\<close>: the hook up to its \<^verbatim>\<open>yield\<close>,
  then the requests, then the hook after its \<^verbatim>\<open>yield\<close>. When the hook raises before
  the \<^verbatim>\<open>yield\<close>, the exception leaves the context manager and nothing is served.
\<close>

definition run_app ::
    "string \<Rightarrow> exn + predictor \<Rightarrow> (string \<times> request) list \<Rightarrow>
      (exn + unit) \<times> (exn + pyval) list \<times> world" where
  "run_app MODEL_VERSION constructed reqs =
     (case lifespan_startup constructed world_init of
        (Inl e, w) \<Rightarrow> (Inl e, [], w)
      | (Inr u, w) \<Rightarrow>
          (let (rs, w') = serve MODEL_VERSION reqs w
           in (Inr (), rs, lifespan_shutdown w')))"

section \<open>Request validation\<close>

text \<open>
  Modelled from the spec: the \<^verbatim>\<open>VehicleData\<close> schema (\<^verbatim>\<open>app/schemas.py\<close>) and the
  validation of the request body against it, which the annotation
  \<^verbatim>\<open>vehicle_data: VehicleData\<close> asks of the framework, are not in \<^verbatim>\<open>app/main.py\<close>.
  The spec says that a body that does not satisfy the schema is rejected before
  reaching the predictor, as a schema-validation failure; a body that satisfies it is
  handed to the handler as a \<^verbatim>\<open>VehicleData\<close>. The schema is the parameter \<open>validate\<close>:
  \<open>Inl errs\<close> for a body it rejects. (\<open>response_model\<close> is the route's, as above.)
\<close>

datatype 'a validated = Validation_failure "string list" | Handled 'a

definition predict_request ::
    "(pyval \<Rightarrow> string list + VehicleData) \<Rightarrow> (pyval \<Rightarrow> string + pyval) \<Rightarrow> pyval \<Rightarrow> world \<Rightarrow>
      (exn + nat \<times> pyval) validated \<times> world" where
  "predict_request validate response_model body w =
     (case validate body of
        Inl errs \<Rightarrow> (Validation_failure errs, w)
      | Inr vehicle_data \<Rightarrow>
          (case post_predict response_model vehicle_data w of (r, w') \<Rightarrow> (Handled r, w')))"

section \<open>Sample inputs\<close>

text \<open>
  A predictor whose \<^verbatim>\<open>predict\<close> always returns (or raises) the given outcome and
  leaves the dict alone.
\<close>

definition const_predictor :: "exn + pyval \<Rightarrow> predictor" where
  "const_predictor outcome =
     \<lparr>predict = (\<lambda>d. (outcome, d)),
      feature_columns = PyList [PyStr ''SoC'', PyStr ''Battery_Temp''],
      soh_model = Model_object ''XGBRegressor'',
      thermal_model = Model_object ''RandomForestClassifier''\<rparr>"

definition loaded :: "predictor \<Rightarrow> world" where
  "loaded p = \<lparr>predictor_instance = [''predictor'' \<mapsto> p], trace = []\<rparr>"

definition vehicle7 :: VehicleData where
  "vehicle7 = VehicleData [(''Vehicle_ID'', PyStr ''EV-7''), (''SoC'', PyFloat 0.5)]"

definition failing_result :: pyval where
  "failing_result =
     PyDict [(''status'', PyStr ''error''), (''error_message'', PyStr ''Missing feature SoC'')]"

definition silent_failure :: pyval where
  "silent_failure = PyDict [(''status'', PyStr ''error'')]"

definition null_message_failure :: pyval where
  "null_message_failure = PyDict [(''status'', PyStr ''error''), (''error_message'', PyNone)]"

definition healthy_result :: pyval where
  "healthy_result =
     PyDict [(''status'', PyStr ''success''), (''soh'', PyFloat 0.91), (''rul_cycles'', PyInt 740)]"

text \<open>
  Modelled from the spec: \<^verbatim>\<open>PredictionResponse\<close> (\<^verbatim>\<open>app/schemas.py\<close>) is not in
  \<^verbatim>\<open>app/main.py\<close>; the spec calls it an output record containing prediction results
  and a status indicator. This stand-in asks for a dict with the key \<^verbatim>\<open>status\<close> and
  serialises it as it is.
\<close>

definition status_response :: "pyval \<Rightarrow> string + pyval" where
  "status_response v =
     (case v of
        PyDict d \<Rightarrow>
          (if map_of d ''status'' = None then Inl ''status: Field required'' else Inr (PyDict d))
      | _ \<Rightarrow> Inl ''Input should be a valid dictionary'')"

text \<open>A request schema that asks for a dict with the key \<^verbatim>\<open>Vehicle_ID\<close>.\<close>

definition requires_vehicle_id :: "pyval \<Rightarrow> string list + VehicleData" where
  "requires_vehicle_id body =
     (case body of
        PyDict d \<Rightarrow>
          (if map_of d ''Vehicle_ID'' = None then Inl [''Vehicle_ID: Field required'']
           else Inr (VehicleData d))
      | _ \<Rightarrow> Inl [''Input should be a valid dictionary''])"

section \<open>Lookups\<close>

lemma dict_get_absent: "map_of d k = None \<Longrightarrow> dict_get d k = PyNone"
  by (simp add: dict_get_def)

lemma dict_get_eq_str: "dict_get d k = PyStr s \<longleftrightarrow> map_of d k = Some (PyStr s)"
  by (simp add: dict_get_def split: option.splits)

section \<open>Outcomes of the prediction handler\<close>

text \<open>The \<^verbatim>\<open>try\<close> block, branch by branch.\<close>

lemma predict_try_absent:
  "predictor_instance w ''predictor'' = None \<Longrightarrow>
   predict_try vehicle_data w =
     (Inl (HTTPException HTTP_503_SERVICE_UNAVAILABLE
             (PyStr ''Model not loaded. Server may be starting up.'')), w)"
  by (simp add: predict_try_def)

lemma predict_try_raises:
  "predictor_instance w ''predictor'' = Some p \<Longrightarrow>
   predict p (model_dump vehicle_data) = (Inl e, d') \<Longrightarrow>
   fst (predict_try vehicle_data w) = Inl e"
  by (simp add: predict_try_def Let_def)

lemma predict_try_dict:
  "predictor_instance w ''predictor'' = Some p \<Longrightarrow>
   predict p (model_dump vehicle_data) = (Inr (PyDict m), d') \<Longrightarrow>
   fst (predict_try vehicle_data w) =
     (if dict_get m ''status'' = PyStr ''error''
      then Inl (http_400 (dict_get m ''error_message''))
      else Inr (PyDict m))"
  by (simp add: predict_try_def Let_def)

lemma predict_try_not_dict:
  "predictor_instance w ''predictor'' = Some p \<Longrightarrow>
   predict p (model_dump vehicle_data) = (Inr v, d') \<Longrightarrow> type_name v \<noteq> ''dict'' \<Longrightarrow>
   fst (predict_try vehicle_data w) = Inl (OtherException (no_attribute_get v))"
  by (cases v) (simp_all add: predict_try_def Let_def)

text \<open>The \<^verbatim>\<open>except\<close> clauses, and the route, on the outcome alone.\<close>

lemma predict_maintenance_fst:
  "fst (predict_maintenance vehicle_data w) =
     (case fst (predict_try vehicle_data w) of
        Inr result \<Rightarrow> Inr result
      | Inl (HTTPException c d) \<Rightarrow> Inl (HTTPException c d)
      | Inl (OtherException s) \<Rightarrow>
          Inl (HTTPException 500 (PyStr (''Prediction failed: '' @ s)))
      | Inl (BaseException_only s) \<Rightarrow> Inl (BaseException_only s))"
  by (simp add: predict_maintenance_def split: prod.splits sum.splits exn.splits)

lemma post_predict_fst:
  "fst (post_predict response_model vehicle_data w) =
     (case fst (predict_maintenance vehicle_data w) of
        Inr result \<Rightarrow>
          (case response_model result of
             Inr content \<Rightarrow> Inr (200, content)
           | Inl errors \<Rightarrow> Inl (OtherException errors))
      | Inl e \<Rightarrow> Inl e)"
  by (simp add: post_predict_def split: prod.splits sum.splits)

section \<open>What the handlers leave of \<^verbatim>\<open>predictor_instance\<close>\<close>

lemma emit_predictor_instance: "predictor_instance (emit ev w) = predictor_instance w"
  by (simp add: emit_def)

lemma predict_try_frame:
  "predictor_instance (snd (predict_try vehicle_data w)) = predictor_instance w"
  by (simp add: predict_try_def Let_def emit_predictor_instance
        split: option.splits sum.splits prod.splits)

lemma predict_maintenance_frame:
  "predictor_instance (snd (predict_maintenance vehicle_data w)) = predictor_instance w"
proof -
  obtain r w' where tr: "predict_try vehicle_data w = (r, w')"
    by (cases "predict_try vehicle_data w")
  then have "predictor_instance w' = predictor_instance w"
    using predict_try_frame [of vehicle_data w] by simp
  then show ?thesis
    by (simp add: predict_maintenance_def tr emit_predictor_instance
          split: sum.splits exn.splits)
qed

lemma handle_frame:
  "predictor_instance (snd (handle MODEL_VERSION now req w)) = predictor_instance w"
  by (cases req) (simp_all add: handle_def predict_maintenance_frame)

lemma serve_snd_Cons:
  "snd (serve MODEL_VERSION ((now, req) # rest) w) =
     snd (serve MODEL_VERSION rest (snd (handle MODEL_VERSION now req w)))"
  by (simp split: prod.splits)

lemma serve_frame:
  "predictor_instance (snd (serve MODEL_VERSION reqs w)) = predictor_instance w"
proof (induction reqs arbitrary: w)
  case Nil
  show ?case by simp
next
  case (Cons a reqs)
  obtain now req where a: "a = (now, req)" by (cases a)
  have "predictor_instance (snd (serve MODEL_VERSION (a # reqs) w)) =
        predictor_instance (snd (handle MODEL_VERSION now req w))"
    unfolding a serve_snd_Cons by (rule Cons.IH)
  then show ?case by (simp add: handle_frame)
qed

lemma startup_predictor_instance:
  "predictor_instance (snd (lifespan_startup constructed w)) =
     (case constructed of
        Inl e \<Rightarrow> predictor_instance w
      | Inr p \<Rightarrow> (predictor_instance w)(''predictor'' \<mapsto> p))"
  by (simp add: lifespan_startup_def Let_def emit_predictor_instance split: sum.splits)

section \<open>The claims\<close>

text \<open>
  C1. While \<^verbatim>\<open>predictor_instance\<close> holds no predictor, \<^verbatim>\<open>/predict\<close> fails for every
  vehicle record with the 503 \<^verbatim>\<open>HTTPException\<close> whose detail is
  \<^verbatim>\<open>"Model not loaded. Server may be starting up."\<close>, and the world is left as it was:
  no call of \<^verbatim>\<open>predict\<close> (and no log record) is added to the trace.
\<close>

theorem predict_absent_503:
  assumes "predictor_instance w ''predictor'' = None"
  shows "predict_maintenance vehicle_data w =
           (Inl (HTTPException 503 (PyStr ''Model not loaded. Server may be starting up.'')), w)
         \<and> post_predict response_model vehicle_data w =
           (Inl (HTTPException 503 (PyStr ''Model not loaded. Server may be starting up.'')), w)
         \<and> trace (snd (predict_maintenance vehicle_data w)) = trace w"
  using assms by (simp add: predict_maintenance_def post_predict_def predict_try_absent)

theorem predict_absent_503_witness:
  "predictor_instance world_init ''predictor'' = None \<and>
   predict_maintenance vehicle7 world_init =
     (Inl (HTTPException 503 (PyStr ''Model not loaded. Server may be starting up.'')),
      world_init) \<and>
   trace (snd (predict_maintenance vehicle7 world_init)) = []"
  using predict_absent_503 [of world_init vehicle7]
  by (simp add: world_init_def)

text \<open>
  C2, as the code has it. With a predictor loaded whose \<^verbatim>\<open>predict\<close> returns a dict
  \<open>m\<close> with \<^verbatim>\<open>m.get('status') == 'error'\<close>, \<^verbatim>\<open>/predict\<close> fails with the 400
  \<^verbatim>\<open>HTTPException\<close>. Its detail is \<^verbatim>\<open>m.get('error_message')\<close>, the value the predictor
  reported, when that is not \<^verbatim>\<open>None\<close>; it is \<^verbatim>\<open>'Bad Request'\<close> when the reported
  value is \<^verbatim>\<open>None\<close> or the key is missing.
\<close>

theorem predict_error_status_400:
  assumes "predictor_instance w ''predictor'' = Some p"
    and "predict p (model_dump vehicle_data) = (Inr (PyDict m), d')"
    and "dict_get m ''status'' = PyStr ''error''"
  shows "fst (predict_maintenance vehicle_data w) =
           Inl (HTTPException 400
                  (if dict_get m ''error_message'' = PyNone then PyStr ''Bad Request''
                   else dict_get m ''error_message''))
         \<and> fst (post_predict response_model vehicle_data w) =
           Inl (HTTPException 400
                  (if dict_get m ''error_message'' = PyNone then PyStr ''Bad Request''
                   else dict_get m ''error_message''))"
proof -
  have "fst (predict_try vehicle_data w) = Inl (http_400 (dict_get m ''error_message''))"
    using assms by (simp add: predict_try_dict)
  then have "fst (predict_maintenance vehicle_data w) =
      Inl (http_400 (dict_get m ''error_message''))"
    by (simp add: predict_maintenance_fst http_400_def)
  then show ?thesis
    by (simp add: post_predict_fst http_400_def)
qed

theorem predict_error_status_400_witness:
  "predictor_instance (loaded (const_predictor (Inr failing_result))) ''predictor'' =
     Some (const_predictor (Inr failing_result)) \<and>
   fst (predict (const_predictor (Inr failing_result)) (model_dump vehicle7)) =
     Inr failing_result \<and>
   fst (predict_maintenance vehicle7 (loaded (const_predictor (Inr failing_result)))) =
     Inl (HTTPException 400 (PyStr ''Missing feature SoC''))"
  using predict_error_status_400
    [of "loaded (const_predictor (Inr failing_result))" "const_predictor (Inr failing_result)"
        vehicle7 "[(''status'', PyStr ''error''), (''error_message'', PyStr ''Missing feature SoC'')]"
        "model_dump vehicle7"]
  by (simp add: loaded_def const_predictor_def failing_result_def dict_get_def)

text \<open>
  C2, as stated, fails where the predictor reports the error status with
  \<^verbatim>\<open>error_message\<close> \<^verbatim>\<open>None\<close>: the reported value is \<^verbatim>\<open>None\<close>, the detail of the 400
  is \<^verbatim>\<open>'Bad Request'\<close>.
\<close>

theorem predict_null_message_detail:
  "py_get null_message_failure ''status'' = Inr (PyStr ''error'') \<and>
   py_get null_message_failure ''error_message'' = Inr PyNone \<and>
   fst (predict_maintenance vehicle7 (loaded (const_predictor (Inr null_message_failure)))) =
     Inl (HTTPException 400 (PyStr ''Bad Request''))"
  by (simp add: predict_maintenance_def predict_try_def loaded_def const_predictor_def
        null_message_failure_def dict_get_def http_400_def Let_def)

text \<open>
  C3, as the code has it. With a predictor loaded whose \<^verbatim>\<open>predict\<close> returns a dict
  \<open>m\<close> that does not report the status \<^verbatim>\<open>'error'\<close>, the handler returns \<open>m\<close> itself.
  The route sends under the status 200 what \<^verbatim>\<open>response_model\<close> makes of \<open>m\<close>, and
  raises the response validation error when \<open>m\<close> does not satisfy that schema.
\<close>

theorem predict_success_200:
  assumes "predictor_instance w ''predictor'' = Some p"
    and "predict p (model_dump vehicle_data) = (Inr (PyDict m), d')"
    and "dict_get m ''status'' \<noteq> PyStr ''error''"
  shows "fst (predict_maintenance vehicle_data w) = Inr (PyDict m)
         \<and> fst (post_predict response_model vehicle_data w) =
             (case response_model (PyDict m) of
                Inr content \<Rightarrow> Inr (200, content)
              | Inl errors \<Rightarrow> Inl (OtherException errors))"
proof -
  have "fst (predict_try vehicle_data w) = Inr (PyDict m)"
    using assms by (simp add: predict_try_dict)
  then have "fst (predict_maintenance vehicle_data w) = Inr (PyDict m)"
    by (simp add: predict_maintenance_fst)
  then show ?thesis
    by (simp add: post_predict_fst)
qed

theorem predict_success_200_witness:
  "predictor_instance (loaded (const_predictor (Inr healthy_result))) ''predictor'' =
     Some (const_predictor (Inr healthy_result)) \<and>
   fst (predict (const_predictor (Inr healthy_result)) (model_dump vehicle7)) =
     Inr healthy_result \<and>
   fst (predict_maintenance vehicle7 (loaded (const_predictor (Inr healthy_result)))) =
     Inr healthy_result \<and>
   fst (post_predict status_response vehicle7 (loaded (const_predictor (Inr healthy_result)))) =
     Inr (200, healthy_result)"
  using predict_success_200
    [of "loaded (const_predictor (Inr healthy_result))" "const_predictor (Inr healthy_result)"
        vehicle7
        "[(''status'', PyStr ''success''), (''soh'', PyFloat 0.91), (''rul_cycles'', PyInt 740)]"
        "model_dump vehicle7" status_response]
  by (simp add: loaded_def const_predictor_def healthy_result_def dict_get_def
        status_response_def)

text \<open>
  C3, as stated, fails where the result does not satisfy the response schema: the empty
  dict reports no error status and the handler returns it, but under a schema with a
  required field the route raises the response validation error instead of sending
  the dict under 200.
\<close>

theorem predict_success_not_verbatim:
  "fst (predict_maintenance vehicle7 (loaded (const_predictor (Inr (PyDict []))))) =
     Inr (PyDict []) \<and>
   fst (post_predict status_response vehicle7 (loaded (const_predictor (Inr (PyDict []))))) =
     Inl (OtherException ''status: Field required'')"
  by (simp add: post_predict_def predict_maintenance_def predict_try_def loaded_def
        const_predictor_def dict_get_def status_response_def Let_def)

text \<open>
  C4, as the code has it. An exception raised in the \<^verbatim>\<open>try\<close> block that is an
  \<^verbatim>\<open>Exception\<close> but not an \<^verbatim>\<open>HTTPException\<close> leaves the handler as the 500
  \<^verbatim>\<open>HTTPException\<close> whose detail is \<^verbatim>\<open>"Prediction failed: "\<close> followed by \<^verbatim>\<open>str(e)\<close>.
  Every \<^verbatim>\<open>HTTPException\<close> raised there, the handler's own 503 and 400 among them,
  leaves it unchanged, and so does a raised object outside \<^verbatim>\<open>Exception\<close>, which no
  clause catches. So what leaves the handler is never an \<^verbatim>\<open>Exception\<close> other than an
  \<^verbatim>\<open>HTTPException\<close>. The two ways into the 500: \<^verbatim>\<open>predict\<close> raises such an
  exception, or it returns a value without a \<^verbatim>\<open>get\<close> method.
\<close>

theorem predict_exception_conversion:
  "(fst (predict_try vehicle_data w) = Inl (OtherException s) \<longrightarrow>
      fst (predict_maintenance vehicle_data w) =
        Inl (HTTPException 500 (PyStr (''Prediction failed: '' @ s))))
   \<and> (fst (predict_try vehicle_data w) = Inl (HTTPException c d) \<longrightarrow>
      fst (predict_maintenance vehicle_data w) = Inl (HTTPException c d))
   \<and> (fst (predict_try vehicle_data w) = Inl (BaseException_only s) \<longrightarrow>
      fst (predict_maintenance vehicle_data w) = Inl (BaseException_only s))
   \<and> fst (predict_maintenance vehicle_data w) \<noteq> Inl (OtherException s')
   \<and> (predictor_instance w ''predictor'' = Some p
        \<and> predict p (model_dump vehicle_data) = (Inl (OtherException s), d') \<longrightarrow>
      fst (predict_maintenance vehicle_data w) =
        Inl (HTTPException 500 (PyStr (''Prediction failed: '' @ s))))
   \<and> (predictor_instance w ''predictor'' = Some p
        \<and> predict p (model_dump vehicle_data) = (Inr v, d') \<and> type_name v \<noteq> ''dict'' \<longrightarrow>
      fst (predict_maintenance vehicle_data w) =
        Inl (HTTPException 500 (PyStr (''Prediction failed: '' @ no_attribute_get v))))"
proof -
  have conv: "fst (predict_maintenance vehicle_data w) =
        Inl (HTTPException 500 (PyStr (''Prediction failed: '' @ t)))"
    if "fst (predict_try vehicle_data w) = Inl (OtherException t)" for t
    using that by (simp add: predict_maintenance_fst)
  have keep: "fst (predict_maintenance vehicle_data w) = Inl (HTTPException c d)"
    if "fst (predict_try vehicle_data w) = Inl (HTTPException c d)"
    using that by (simp add: predict_maintenance_fst)
  have pass: "fst (predict_maintenance vehicle_data w) = Inl (BaseException_only s)"
    if "fst (predict_try vehicle_data w) = Inl (BaseException_only s)"
    using that by (simp add: predict_maintenance_fst)
  have never_other: "fst (predict_maintenance vehicle_data w) \<noteq> Inl (OtherException s')"
    by (simp add: predict_maintenance_fst split: sum.splits exn.splits)
  have raised: "fst (predict_maintenance vehicle_data w) =
        Inl (HTTPException 500 (PyStr (''Prediction failed: '' @ s)))"
    if "predictor_instance w ''predictor'' = Some p"
      and "predict p (model_dump vehicle_data) = (Inl (OtherException s), d')"
    using that by (intro conv predict_try_raises)
  have not_dict: "fst (predict_maintenance vehicle_data w) =
        Inl (HTTPException 500 (PyStr (''Prediction failed: '' @ no_attribute_get v)))"
    if "predictor_instance w ''predictor'' = Some p"
      and "predict p (model_dump vehicle_data) = (Inr v, d')" and "type_name v \<noteq> ''dict''"
    using that by (intro conv predict_try_not_dict)
  from conv keep pass never_other raised not_dict show ?thesis
    by blast
qed

theorem predict_exception_conversion_witness:
  "fst (predict_try vehicle7 (loaded (const_predictor (Inl (OtherException ''model file corrupt''))))) =
     Inl (OtherException ''model file corrupt'') \<and>
   fst (predict_maintenance vehicle7
          (loaded (const_predictor (Inl (OtherException ''model file corrupt''))))) =
     Inl (HTTPException 500 (PyStr ''Prediction failed: model file corrupt'')) \<and>
   fst (predict_try vehicle7 world_init) =
     Inl (HTTPException 503 (PyStr ''Model not loaded. Server may be starting up.'')) \<and>
   fst (predict_maintenance vehicle7 world_init) =
     Inl (HTTPException 503 (PyStr ''Model not loaded. Server may be starting up.'')) \<and>
   fst (predict_try vehicle7 (loaded (const_predictor (Inl (BaseException_only ''KeyboardInterrupt''))))) =
     Inl (BaseException_only ''KeyboardInterrupt'') \<and>
   fst (predict_maintenance vehicle7
          (loaded (const_predictor (Inl (BaseException_only ''KeyboardInterrupt''))))) =
     Inl (BaseException_only ''KeyboardInterrupt'') \<and>
   fst (predict (const_predictor (Inr PyNone)) (model_dump vehicle7)) = Inr PyNone \<and>
   type_name PyNone \<noteq> ''dict'' \<and>
   fst (predict_maintenance vehicle7 (loaded (const_predictor (Inr PyNone)))) =
     Inl (HTTPException 500 (PyStr (''Prediction failed: '' @ no_attribute_get PyNone)))"
  using predict_exception_conversion
    [where vehicle_data = vehicle7
       and w = "loaded (const_predictor (Inl (OtherException ''model file corrupt'')))"
       and s = "''model file corrupt''"
       and p = "const_predictor (Inl (OtherException ''model file corrupt''))"
       and d' = "model_dump vehicle7"]
    predict_exception_conversion
    [where vehicle_data = vehicle7 and w = world_init and c = 503
       and d = "PyStr ''Model not loaded. Server may be starting up.''"]
    predict_exception_conversion
    [where vehicle_data = vehicle7
       and w = "loaded (const_predictor (Inl (BaseException_only ''KeyboardInterrupt'')))"
       and s = "''KeyboardInterrupt''"]
    predict_exception_conversion
    [where vehicle_data = vehicle7 and w = "loaded (const_predictor (Inr PyNone))"
       and p = "const_predictor (Inr PyNone)" and v = PyNone and d' = "model_dump vehicle7"]
  by (simp add: predict_try_def loaded_def const_predictor_def world_init_def Let_def)

text \<open>
  C4, as stated, fails where the predictor itself raises an \<^verbatim>\<open>HTTPException\<close>: a 404
  raised by \<^verbatim>\<open>predict\<close> is neither the handler's 503 nor its 400, and it leaves the
  handler as the same 404, not as a 500.
\<close>

theorem predict_http_exception_not_500:
  "fst (predict_try vehicle7
          (loaded (const_predictor (Inl (HTTPException 404 (PyStr ''Unknown vehicle'')))))) =
     Inl (HTTPException 404 (PyStr ''Unknown vehicle'')) \<and>
   fst (predict_maintenance vehicle7
          (loaded (const_predictor (Inl (HTTPException 404 (PyStr ''Unknown vehicle'')))))) =
     Inl (HTTPException 404 (PyStr ''Unknown vehicle''))"
  by (simp add: predict_maintenance_def predict_try_def loaded_def const_predictor_def Let_def)

text \<open>
  C5. \<^verbatim>\<open>/health\<close> succeeds in every world, whatever \<^verbatim>\<open>predictor_instance\<close> holds, and
  leaves it as it was; the body has \<^verbatim>\<open>status\<close> \<^verbatim>\<open>"healthy"\<close> and \<^verbatim>\<open>model_version\<close>
  equal to \<open>MODEL_VERSION\<close>.
\<close>

theorem health_always_healthy:
  "handle MODEL_VERSION now GET_health w = (Inr (health_check MODEL_VERSION now), w)
   \<and> py_get (health_check MODEL_VERSION now) ''status'' = Inr (PyStr ''healthy'')
   \<and> py_get (health_check MODEL_VERSION now) ''model_version'' = Inr (PyStr MODEL_VERSION)"
  by (simp add: handle_def health_check_def dict_get_def)

text \<open>
  C6. \<^verbatim>\<open>/model/info\<close> fails with a 503 \<^verbatim>\<open>HTTPException\<close> while no predictor is stored;
  with the predictor \<open>p\<close> stored it returns a dict whose \<^verbatim>\<open>features\<close> is
  \<^verbatim>\<open>p.feature_columns\<close> as it is and whose \<^verbatim>\<open>thresholds\<close> is the fixed table
  soh_critical 0.60, soh_warning 0.80, rul_urgent 100, thermal_danger 0.70.
\<close>

theorem model_info_contract:
  "(predictor_instance w ''predictor'' = None \<longrightarrow>
      get_model_info MODEL_VERSION w =
        Inl (HTTPException 503 (PyStr ''Models not loaded'')))
   \<and> (predictor_instance w ''predictor'' = Some p \<longrightarrow>
      (\<exists>body. get_model_info MODEL_VERSION w = Inr (PyDict body)
         \<and> dict_get body ''features'' = feature_columns p
         \<and> dict_get body ''thresholds'' =
             PyDict
               [(''soh_critical'', PyFloat 0.60),
                (''soh_warning'', PyFloat 0.80),
                (''rul_urgent'', PyInt 100),
                (''thermal_danger'', PyFloat 0.70)]))"
  by (simp add: get_model_info_def dict_get_def thresholds_def)

theorem model_info_contract_witness:
  "get_model_info ''1.0.0'' world_init = Inl (HTTPException 503 (PyStr ''Models not loaded'')) \<and>
   (\<exists>body. get_model_info ''1.0.0'' (loaded (const_predictor (Inr PyNone))) = Inr (PyDict body)
      \<and> dict_get body ''features'' = PyList [PyStr ''SoC'', PyStr ''Battery_Temp'']
      \<and> dict_get body ''thresholds'' =
           PyDict
             [(''soh_critical'', PyFloat 0.60),
              (''soh_warning'', PyFloat 0.80),
              (''rul_urgent'', PyInt 100),
              (''thermal_danger'', PyFloat 0.70)])"
  using model_info_contract [where w = world_init and MODEL_VERSION = "''1.0.0''"]
    model_info_contract
      [where w = "loaded (const_predictor (Inr PyNone))" and p = "const_predictor (Inr PyNone)"
         and MODEL_VERSION = "''1.0.0''"]
  by (simp add: world_init_def loaded_def const_predictor_def)

text \<open>
  C7. When the constructor raises \<open>e\<close>, the hook raises \<open>e\<close> itself with nothing
  stored (after the error log record when \<open>e\<close> is an \<^verbatim>\<open>Exception\<close>, without it when
  no clause catches \<open>e\<close>), so the run ends with \<open>e\<close> and no request is served. When
  the constructor returns \<open>p\<close>, the hook reaches its \<^verbatim>\<open>yield\<close> with
  \<^verbatim>\<open>predictor_instance\<close> holding exactly \<open>p\<close> under \<^verbatim>\<open>"predictor"\<close>, the requests are
  served from that world, and the hook's exit leaves \<^verbatim>\<open>predictor_instance\<close> empty.
\<close>

theorem lifespan_fail_fast:
  "lifespan_startup (Inl e) w =
     (Inl e,
      if is_Exception e
      then emit (Log ERROR ''Failed to load models'')
             (emit (Log INFO '' Starting up API server...'') w)
      else emit (Log INFO '' Starting up API server...'') w)
   \<and> predictor_instance (snd (lifespan_startup (Inl e) w)) = predictor_instance w
   \<and> run_app MODEL_VERSION (Inl e) reqs =
       (Inl e, [],
        \<lparr>predictor_instance = Map.empty,
         trace =
           (if is_Exception e
            then [Log INFO '' Starting up API server...'', Log ERROR ''Failed to load models'']
            else [Log INFO '' Starting up API server...''])\<rparr>)
   \<and> fst (lifespan_startup (Inr p) w) = Inr ()
   \<and> predictor_instance (snd (lifespan_startup (Inr p) world_init)) = [''predictor'' \<mapsto> p]
   \<and> fst (run_app MODEL_VERSION (Inr p) reqs) = Inr ()
   \<and> fst (snd (run_app MODEL_VERSION (Inr p) reqs)) =
       fst (serve MODEL_VERSION reqs (snd (lifespan_startup (Inr p) world_init)))
   \<and> predictor_instance (lifespan_shutdown w) = Map.empty
   \<and> predictor_instance (snd (snd (run_app MODEL_VERSION (Inr p) reqs))) = Map.empty"
  by (simp add: lifespan_startup_def lifespan_shutdown_def run_app_def world_init_def emit_def
        Let_def split: prod.splits)

text \<open>
  C8. No handler writes \<^verbatim>\<open>predictor_instance\<close>: one request, and any sequence of
  requests, leaves it as it was. So every handler of a run finds it empty (before a
  predictor is stored, or when the constructor failed) or holding exactly the one
  predictor \<open>p\<close> that the hook stored; only the hook changes it, storing \<open>p\<close> on entry
  and clearing it on exit.
\<close>

theorem handlers_never_write_predictor_instance:
  "predictor_instance (snd (handle MODEL_VERSION now req w)) = predictor_instance w
   \<and> predictor_instance (snd (serve MODEL_VERSION reqs w)) = predictor_instance w
   \<and> predictor_instance (snd (serve MODEL_VERSION reqs world_init)) = Map.empty
   \<and> predictor_instance
       (snd (serve MODEL_VERSION reqs (snd (lifespan_startup (Inr p) world_init)))) =
       [''predictor'' \<mapsto> p]
   \<and> predictor_instance (snd (lifespan_startup (Inl e) world_init)) = Map.empty
   \<and> predictor_instance (lifespan_shutdown w) = Map.empty"
  by (simp add: handle_frame serve_frame startup_predictor_instance world_init_def
        lifespan_shutdown_def Let_def emit_predictor_instance)

text \<open>
  C9. A body that the \<^verbatim>\<open>VehicleData\<close> schema rejects is answered with the validation
  failure, the world is left as it was (the handler does not run, so \<^verbatim>\<open>predict\<close> is
  not called), and the answer is not the handler's 500.
\<close>

theorem invalid_body_rejected:
  assumes "validate body = Inl errs"
  shows "predict_request validate response_model body w = (Validation_failure errs, w)
         \<and> trace (snd (predict_request validate response_model body w)) = trace w
         \<and> fst (predict_request validate response_model body w) \<noteq>
             Handled (Inl (HTTPException 500 d))"
  using assms by (simp add: predict_request_def)

theorem invalid_body_rejected_witness:
  "requires_vehicle_id (PyDict [(''SoC'', PyFloat 0.5)]) = Inl [''Vehicle_ID: Field required''] \<and>
   predict_request requires_vehicle_id status_response (PyDict [(''SoC'', PyFloat 0.5)])
       (loaded (const_predictor (Inr healthy_result))) =
     (Validation_failure [''Vehicle_ID: Field required''],
      loaded (const_predictor (Inr healthy_result)))"
  using invalid_body_rejected
    [of requires_vehicle_id "PyDict [(''SoC'', PyFloat 0.5)]" "[''Vehicle_ID: Field required'']"
        status_response "loaded (const_predictor (Inr healthy_result))" PyNone]
  by (simp add: requires_vehicle_id_def)

text \<open>
  C10, as the code has it. With a predictor loaded whose \<^verbatim>\<open>predict\<close> returns a dict
  \<open>m\<close>, the handler raises the 400 \<^verbatim>\<open>HTTPException\<close> exactly when \<open>m\<close> has the key
  \<^verbatim>\<open>status\<close> with the string \<^verbatim>\<open>'error'\<close> as its value; otherwise (another value, or no
  such key) it returns \<open>m\<close>. When it raises the 400 and \<open>m\<close> has no key
  \<^verbatim>\<open>error_message\<close>, the detail is \<^verbatim>\<open>'Bad Request'\<close>, the reason phrase that the
  exception's constructor puts in the place of \<^verbatim>\<open>None\<close>.
\<close>

theorem predict_400_iff_status_error:
  assumes "predictor_instance w ''predictor'' = Some p"
    and "predict p (model_dump vehicle_data) = (Inr (PyDict m), d')"
  shows "((\<exists>d. fst (predict_maintenance vehicle_data w) = Inl (HTTPException 400 d)) \<longleftrightarrow>
            map_of m ''status'' = Some (PyStr ''error''))
         \<and> (map_of m ''status'' \<noteq> Some (PyStr ''error'') \<longrightarrow>
              fst (predict_maintenance vehicle_data w) = Inr (PyDict m))
         \<and> (map_of m ''status'' = Some (PyStr ''error'') \<and> map_of m ''error_message'' = None \<longrightarrow>
              fst (predict_maintenance vehicle_data w) =
                Inl (HTTPException 400 (PyStr ''Bad Request'')))"
proof -
  have out: "fst (predict_maintenance vehicle_data w) =
      (if map_of m ''status'' = Some (PyStr ''error'')
       then Inl (http_400 (dict_get m ''error_message''))
       else Inr (PyDict m))"
    using assms by (simp add: predict_maintenance_fst predict_try_dict dict_get_eq_str http_400_def)
  show ?thesis
    by (simp add: out dict_get_absent http_400_def)
qed

theorem predict_400_iff_status_error_witness:
  "fst (predict_maintenance vehicle7 (loaded (const_predictor (Inr silent_failure)))) =
     Inl (HTTPException 400 (PyStr ''Bad Request'')) \<and>
   fst (predict_maintenance vehicle7 (loaded (const_predictor (Inr healthy_result)))) =
     Inr healthy_result"
  using predict_400_iff_status_error
    [of "loaded (const_predictor (Inr silent_failure))" "const_predictor (Inr silent_failure)"
        vehicle7 "[(''status'', PyStr ''error'')]" "model_dump vehicle7"]
    predict_400_iff_status_error
    [of "loaded (const_predictor (Inr healthy_result))" "const_predictor (Inr healthy_result)"
        vehicle7
        "[(''status'', PyStr ''success''), (''soh'', PyFloat 0.91), (''rul_cycles'', PyInt 740)]"
        "model_dump vehicle7"]
  by (simp add: loaded_def const_predictor_def silent_failure_def healthy_result_def)

text \<open>
  C10, as stated, fails in its last clause: where the predictor reports the error
  status without an \<^verbatim>\<open>error_message\<close>, the detail of the 400 is \<^verbatim>\<open>'Bad Request'\<close>, not
  \<^verbatim>\<open>None\<close>.
\<close>

theorem predict_missing_message_not_null:
  "map_of [(''status'', PyStr ''error'')] ''error_message'' = None \<and>
   fst (predict_maintenance vehicle7
          (loaded (const_predictor (Inr (PyDict [(''status'', PyStr ''error'')]))))) =
     Inl (HTTPException 400 (PyStr ''Bad Request'')) \<and>
   fst (predict_maintenance vehicle7
          (loaded (const_predictor (Inr (PyDict [(''status'', PyStr ''error'')]))))) \<noteq>
     Inl (HTTPException 400 PyNone)"
  by (simp add: predict_maintenance_def predict_try_def loaded_def const_predictor_def
        dict_get_def http_400_def Let_def)

end
